theory Spec2Isabelle
  imports Main "HOL-Library.Finite_Map" "HOL-Library.Char_ord" "HOL-Library.List_Lexorder"
    "HOL-Library.Product_Lexorder"
begin

section \<open>Values decoded from JSON\<close>

text \<open>
  \<^verbatim>\<open>response.json()\<close> yields \<^verbatim>\<open>None\<close>, a \<^verbatim>\<open>bool\<close>, an \<^verbatim>\<open>int\<close>, a \<^verbatim>\<open>str\<close>,
  a \<^verbatim>\<open>list\<close> or a \<^verbatim>\<open>dict\<close> with string keys. A dict is a finite map: the tracker
  only looks keys up, and Python compares dicts without regard to order. Numbers are
  Python's unbounded integers; JSON numbers with a fraction or an exponent (Python
  floats) are outside this model. Strings are HOL strings: text beyond ASCII appears as
  its UTF-8 bytes.
\<close>

datatype json =
    JNull
  | JBool bool
  | JInt int
  | JStr string
  | JList "json list"
  | JObj "(string, json) fmap"

datatype py_error =
    ValueError
  | AttributeError
  | TypeError
  | OverflowError
  | OSError
  | RequestException
  | JSONDecodeError

text \<open>Truth value testing, as \<^verbatim>\<open>not x\<close> and \<^verbatim>\<open>all(...)\<close> apply it.\<close>

fun truthy :: "json \<Rightarrow> bool" where
  "truthy JNull = False"
| "truthy (JBool b) = b"
| "truthy (JInt n) = (n \<noteq> 0)"
| "truthy (JStr s) = (s \<noteq> [])"
| "truthy (JList xs) = (xs \<noteq> [])"
| "truthy (JObj m) = (m \<noteq> fmempty)"

text \<open>
  Python's \<^verbatim>\<open>==\<close> on decoded values: \<^verbatim>\<open>bool\<close> is a subclass of \<^verbatim>\<open>int\<close>
  (\<^verbatim>\<open>True == 1\<close>), lists compare elementwise, dicts compare as mappings, and values
  of different kinds are unequal.
\<close>

definition int_of_bool :: "bool \<Rightarrow> int" where
  "int_of_bool b = (if b then 1 else 0)"

primrec py_eq :: "json \<Rightarrow> json \<Rightarrow> bool" where
  "py_eq JNull w = (w = JNull)"
| "py_eq (JBool a) w =
     (case w of JBool b \<Rightarrow> a = b | JInt n \<Rightarrow> int_of_bool a = n | _ \<Rightarrow> False)"
| "py_eq (JInt m) w =
     (case w of JBool b \<Rightarrow> m = int_of_bool b | JInt n \<Rightarrow> m = n | _ \<Rightarrow> False)"
| "py_eq (JStr s) w = (w = JStr s)"
| "py_eq (JList xs) w =
     (case w of JList ys \<Rightarrow> list_all2 (\<lambda>f y. f y) (map py_eq xs) ys | _ \<Rightarrow> False)"
| "py_eq (JObj m) w =
     (case w of JObj n \<Rightarrow> fmrel (\<lambda>f y. f y) (fmmap py_eq m) n | _ \<Rightarrow> False)"

text \<open>
  Python's binary \<^verbatim>\<open>-\<close>: defined on \<^verbatim>\<open>int\<close> and \<^verbatim>\<open>bool\<close> operands, a
  \<^verbatim>\<open>TypeError\<close> on \<^verbatim>\<open>None\<close>, strings, lists and dicts.
\<close>

fun py_sub :: "json \<Rightarrow> json \<Rightarrow> py_error + int" where
  "py_sub (JInt a) (JInt b) = Inr (a - b)"
| "py_sub (JInt a) (JBool b) = Inr (a - int_of_bool b)"
| "py_sub (JBool a) (JInt b) = Inr (int_of_bool a - b)"
| "py_sub (JBool a) (JBool b) = Inr (int_of_bool a - int_of_bool b)"
| "py_sub _ _ = Inl TypeError"

section \<open>Calendar dates: strptime and strftime\<close>

definition is_digit :: "char \<Rightarrow> bool" where
  "is_digit c = (c \<in> set ''0123456789'')"

definition digit_val :: "char \<Rightarrow> nat" where
  "digit_val c = of_char c - 48"

definition digit_char :: "nat \<Rightarrow> char" where
  "digit_char n = ''0123456789'' ! (n mod 10)"

definition pad2 :: "nat \<Rightarrow> string" where
  "pad2 n = [digit_char (n div 10), digit_char n]"

definition pad4 :: "nat \<Rightarrow> string" where
  "pad4 n = [digit_char (n div 1000), digit_char (n div 100), digit_char (n div 10), digit_char n]"

text \<open>
  \<^verbatim>\<open>_strptime\<close> turns a format into a regular expression. These are its groups:
  \<^verbatim>\<open>%Y\<close> is \<^verbatim>\<open>\d\d\d\d\<close>, \<^verbatim>\<open>%m\<close> is \<^verbatim>\<open>1[0-2]|0[1-9]|[1-9]\<close>, \<^verbatim>\<open>%d\<close> is
  \<^verbatim>\<open>3[0-1]|[1-2]\d|0[1-9]|[1-9]| [1-9]\<close>. Each matcher returns the number and the
  rest of the string, trying the alternatives in the regex's order. In both formats used
  here a group is followed by a literal separator or by the end of the pattern, so an
  alternative that the regex engine would reach by backtracking can never succeed, and
  the first alternative that matches is the one the engine settles on. A digit is one of
  the ten ASCII digits; the decimal digits of other scripts, which \<^verbatim>\<open>\d\<close> also
  matches on a Python string, are outside this model.
\<close>

fun match_Y :: "string \<Rightarrow> (nat \<times> string) option" where
  "match_Y (a # b # c # d # r) =
     (if is_digit a \<and> is_digit b \<and> is_digit c \<and> is_digit d
      then Some (1000 * digit_val a + 100 * digit_val b + 10 * digit_val c + digit_val d, r)
      else None)"
| "match_Y _ = None"

definition is_digit19 :: "char \<Rightarrow> bool" where
  "is_digit19 c = (c \<in> set ''123456789'')"

fun match_m :: "string \<Rightarrow> (nat \<times> string) option" where
  "match_m [] = None"
| "match_m [a] = (if is_digit19 a then Some (digit_val a, []) else None)"
| "match_m (a # b # r) =
     (if a = CHR ''1'' \<and> b \<in> set ''012'' then Some (10 + digit_val b, r)
      else if a = CHR ''0'' \<and> is_digit19 b then Some (digit_val b, r)
      else if is_digit19 a then Some (digit_val a, b # r)
      else None)"

fun match_d :: "string \<Rightarrow> (nat \<times> string) option" where
  "match_d [] = None"
| "match_d [a] = (if is_digit19 a then Some (digit_val a, []) else None)"
| "match_d (a # b # r) =
     (if a = CHR ''3'' \<and> b \<in> set ''01'' then Some (30 + digit_val b, r)
      else if a \<in> set ''12'' \<and> is_digit b then Some (10 * digit_val a + digit_val b, r)
      else if a = CHR ''0'' \<and> is_digit19 b then Some (digit_val b, r)
      else if is_digit19 a then Some (digit_val a, b # r)
      else if a = CHR '' '' \<and> is_digit19 b then Some (digit_val b, r)
      else None)"

text \<open>The checks of the \<^verbatim>\<open>date\<close> constructor: years 1 to 9999, the day within the month.\<close>

definition is_leap :: "nat \<Rightarrow> bool" where
  "is_leap y = (y mod 4 = 0 \<and> (y mod 100 \<noteq> 0 \<or> y mod 400 = 0))"

definition days_in_month :: "nat \<Rightarrow> nat \<Rightarrow> nat" where
  "days_in_month y m =
     (if m = 2 then (if is_leap y then 29 else 28)
      else if m \<in> {4, 6, 9, 11} then 30 else 31)"

type_synonym ymd = "nat \<times> nat \<times> nat"

definition valid_ymd :: "ymd \<Rightarrow> bool" where
  "valid_ymd t = (case t of (y, m, d) \<Rightarrow>
     1 \<le> y \<and> y \<le> 9999 \<and> 1 \<le> m \<and> m \<le> 12 \<and> 1 \<le> d \<and> d \<le> days_in_month y m)"

text \<open>
  \<^verbatim>\<open>datetime.strptime(s, '%Y-%m-%d')\<close>: \<open>None\<close> is the \<^verbatim>\<open>ValueError\<close> raised when
  the string does not match, when text is left over after the match, or when the date
  does not exist.
\<close>

definition strptime_Ymd :: "string \<Rightarrow> ymd option" where
  "strptime_Ymd s =
     (case match_Y s of
        None \<Rightarrow> None
      | Some (y, r1) \<Rightarrow>
          if r1 = [] \<or> hd r1 \<noteq> CHR ''-'' then None
          else
            (case match_m (tl r1) of
               None \<Rightarrow> None
             | Some (m, r2) \<Rightarrow>
                 if r2 = [] \<or> hd r2 \<noteq> CHR ''-'' then None
                 else
                   (case match_d (tl r2) of
                      None \<Rightarrow> None
                    | Some (d, r3) \<Rightarrow>
                        if r3 = [] \<and> valid_ymd (y, m, d) then Some (y, m, d) else None)))"

text \<open>\<^verbatim>\<open>datetime.strptime(s, '%d.%m.%Y')\<close>, the key of the sort in \<^verbatim>\<open>handle_update\<close>.\<close>

definition strptime_dmY :: "string \<Rightarrow> ymd option" where
  "strptime_dmY s =
     (case match_d s of
        None \<Rightarrow> None
      | Some (d, r1) \<Rightarrow>
          if r1 = [] \<or> hd r1 \<noteq> CHR ''.'' then None
          else
            (case match_m (tl r1) of
               None \<Rightarrow> None
             | Some (m, r2) \<Rightarrow>
                 if r2 = [] \<or> hd r2 \<noteq> CHR ''.'' then None
                 else
                   (case match_Y (tl r2) of
                      None \<Rightarrow> None
                    | Some (y, r3) \<Rightarrow>
                        if r3 = [] \<and> valid_ymd (y, m, d) then Some (y, m, d) else None)))"

text \<open>
  \<^verbatim>\<open>strftime\<close> with zero-padded fields, as the library documents \<^verbatim>\<open>%d\<close>, \<^verbatim>\<open>%m\<close>
  and \<^verbatim>\<open>%Y\<close> (\<^verbatim>\<open>0001\<close>, ..., \<^verbatim>\<open>9999\<close>). A C library that does not pad \<^verbatim>\<open>%Y\<close>
  gives a shorter text for the years before 1000 only.
\<close>

definition strftime_dmY :: "ymd \<Rightarrow> string" where
  "strftime_dmY t = (case t of (y, m, d) \<Rightarrow> pad2 d @ ''.'' @ pad2 m @ ''.'' @ pad4 y)"

definition strftime_Ymd :: "ymd \<Rightarrow> string" where
  "strftime_Ymd t = (case t of (y, m, d) \<Rightarrow> pad4 y @ ''-'' @ pad2 m @ ''-'' @ pad2 d)"

section \<open>Settings, scan history and the result of a cycle\<close>

text \<open>
  The settings the tracker reads. The form stores the text of the two country selectors
  and the index test of the update selector, so the countries are strings and
  \<open>send_all_updates\<close> is a boolean.
\<close>

record settings =
  source_country :: string
  mission_country :: string
  send_all_updates :: bool

text \<open>
  \<^verbatim>\<open>appointment_info\<close>: the dict built for a matching record. Optional fields hold
  whatever the record holds. \<open>people_looking_change\<close> is \<open>None\<close> when the key is not
  in the dict.
\<close>

record appointment_info =
  date :: string
  center :: json
  visa_category :: json
  visa_subcategory :: json
  people_looking :: json
  link :: json
  people_looking_change :: "int option"

text \<open>
  \<^verbatim>\<open>scan_history\<close>: \<open>last_scan\<close> is \<open>None\<close> when the key is missing (a history file
  from elsewhere), \<open>Some JNull\<close> in the history that \<^verbatim>\<open>load_scan_history\<close> creates,
  and the time of the last cycle afterwards. \<open>stored\<close> is the dict under
  \<^verbatim>\<open>'appointments'\<close>, from appointment key to the last \<^verbatim>\<open>appointment_info\<close>.
\<close>

record scan_history =
  last_scan :: "json option"
  stored :: "string \<rightharpoonup> appointment_info"

text \<open>The dict that \<^verbatim>\<open>update_signal\<close> carries; its \<^verbatim>\<open>'error'\<close> entry is always \<^verbatim>\<open>None\<close>.\<close>

record poll_result =
  current_time :: string
  last_check :: json
  api_last_checked :: "string option"
  appointments :: "appointment_info list"

section \<open>One record of the listing\<close>

definition required_fields :: "string list" where
  "required_fields = [''source_country'', ''mission_country'', ''appointment_date'']"

text \<open>\<^verbatim>\<open>appointment.get(field)\<close> is \<^verbatim>\<open>None\<close> for a missing key, and \<^verbatim>\<open>None\<close> is falsy.\<close>

definition field_truthy :: "(string, json) fmap \<Rightarrow> string \<Rightarrow> bool" where
  "field_truthy m f = (case fmlookup m f of None \<Rightarrow> False | Some v \<Rightarrow> truthy v)"

definition has_required :: "(string, json) fmap \<Rightarrow> bool" where
  "has_required m = list_all (field_truthy m) required_fields"

text \<open>\<^verbatim>\<open>appointment.get(key, default)\<close>.\<close>

definition get_default :: "(string, json) fmap \<Rightarrow> string \<Rightarrow> json \<Rightarrow> json" where
  "get_default m k dflt = (case fmlookup m k of None \<Rightarrow> dflt | Some v \<Rightarrow> v)"

text \<open>The placeholder of a missing text field, byte for byte as the source file has it.\<close>

definition unspecified :: string where
  "unspecified = ''Belirtilmemi'' @ [CHR 0xC3, CHR 0x85, CHR 0xC5, CHR 0xB8]"

text \<open>
  \<^verbatim>\<open>datetime.strptime(appointment['appointment_date'].split('T')[0], '%Y-%m-%d')\<close>:
  a value that is not a string has no \<^verbatim>\<open>split\<close>.
\<close>

definition parse_appointment_date :: "json \<Rightarrow> py_error + ymd" where
  "parse_appointment_date v =
     (case v of
        JStr s \<Rightarrow>
          (case strptime_Ymd (takeWhile (\<lambda>c. c \<noteq> CHR ''T'') s) of
             None \<Rightarrow> Inl ValueError
           | Some t \<Rightarrow> Inr t)
      | _ \<Rightarrow> Inl AttributeError)"

definition build_info :: "(string, json) fmap \<Rightarrow> ymd \<Rightarrow> appointment_info" where
  "build_info m t =
     \<lparr> date = strftime_dmY t,
       center = get_default m ''center_name'' (JStr unspecified),
       visa_category = get_default m ''visa_category'' (JStr unspecified),
       visa_subcategory = get_default m ''visa_subcategory'' (JStr unspecified),
       people_looking = get_default m ''people_looking'' (JInt 0),
       link = get_default m ''book_now_link'' (JStr ''#''),
       people_looking_change = None \<rparr>"

definition appointment_key :: "string \<Rightarrow> string \<Rightarrow> ymd \<Rightarrow> string" where
  "appointment_key src mis t = src @ ''_'' @ mis @ ''_'' @ strftime_Ymd t"

text \<open>
  The part of the loop body that depends on the record and the settings only: the
  guards, the country test and the date. \<open>None\<close> is every \<^verbatim>\<open>continue\<close>, among them
  the handler of \<^verbatim>\<open>(ValueError, AttributeError)\<close>; otherwise the key and the fresh
  \<^verbatim>\<open>appointment_info\<close>. A record's country equals a setting, which is a string, only
  if it is that string.
\<close>

definition appointment_entry :: "settings \<Rightarrow> json \<Rightarrow> (string \<times> appointment_info) option" where
  "appointment_entry s v =
     (case v of
        JObj m \<Rightarrow>
          if m = fmempty then None
          else if \<not> has_required m then None
          else if fmlookup m ''source_country'' = Some (JStr (source_country s))
                \<and> fmlookup m ''mission_country'' = Some (JStr (mission_country s))
          then (case parse_appointment_date (get_default m ''appointment_date'' JNull) of
                  Inl e \<Rightarrow> None
                | Inr t \<Rightarrow>
                    Some (appointment_key (source_country s) (mission_country s) t,
                          build_info m t))
          else None
      | _ \<Rightarrow> None)"

section \<open>The comparison with the history\<close>

text \<open>
  Lines 120 to 128: if the key is in the history and the counts differ, the difference
  is attached; the dict is stored under the key and appended to the result. The same
  dict is stored and appended, so the stored copy carries the difference too. A
  difference that Python cannot compute raises \<^verbatim>\<open>TypeError\<close>, which no handler inside
  the loop catches.
\<close>

definition annotate ::
  "(string \<rightharpoonup> appointment_info) \<Rightarrow> string \<Rightarrow> appointment_info \<Rightarrow> py_error + appointment_info" where
  "annotate h k info =
     (case h k of
        None \<Rightarrow> Inr info
      | Some prev \<Rightarrow>
          if \<not> py_eq (people_looking prev) (people_looking info)
          then (case py_sub (people_looking info) (people_looking prev) of
                  Inl e \<Rightarrow> Inl e
                | Inr d \<Rightarrow> Inr (info\<lparr>people_looking_change := Some d\<rparr>))
          else Inr info)"

text \<open>
  The second loop of \<^verbatim>\<open>check_appointments\<close> over the elements of the listing, with
  the appointments found so far and the history dict. An exception leaves the loop with
  the history as changed up to then.
\<close>

fun process_listing ::
  "settings \<Rightarrow> json list \<Rightarrow> appointment_info list \<Rightarrow> (string \<rightharpoonup> appointment_info)
     \<Rightarrow> (py_error + appointment_info list) \<times> (string \<rightharpoonup> appointment_info)" where
  "process_listing s [] acc h = (Inr acc, h)"
| "process_listing s (v # vs) acc h =
     (case appointment_entry s v of
        None \<Rightarrow> process_listing s vs acc h
      | Some (k, info) \<Rightarrow>
          (case annotate h k info of
             Inl e \<Rightarrow> (Inl e, h)
           | Inr info' \<Rightarrow> process_listing s vs (acc @ [info']) (h(k \<mapsto> info'))))"

section \<open>Timestamps of the feed\<close>

text \<open>
  A \<^verbatim>\<open>datetime\<close> is its wall-clock reading in microseconds since 0001-01-01 00:00:00,
  naive or with the UTC offset (in microseconds) of its \<^verbatim>\<open>tzinfo\<close>. The type holds
  readings from 0 up to, not including, \<open>max_wall\<close> (the end of the year 9999).
\<close>

datatype pydatetime = Naive int | Aware int int

definition us_per_day :: int where
  "us_per_day = 86400000000"

definition max_wall :: int where
  "max_wall = 3652059 * us_per_day"

definition in_range :: "int \<Rightarrow> bool" where
  "in_range w = (0 \<le> w \<and> w < max_wall)"

text \<open>
  \<^verbatim>\<open>api_time > latest_update\<close>: two naive values compare by their readings, two aware
  values by their instants, and a naive value against an aware one raises
  \<^verbatim>\<open>TypeError\<close>.
\<close>

fun dt_gt :: "pydatetime \<Rightarrow> pydatetime \<Rightarrow> py_error + bool" where
  "dt_gt (Naive a) (Naive b) = Inr (a > b)"
| "dt_gt (Aware a oa) (Aware b ob) = Inr (a - oa > b - ob)"
| "dt_gt _ _ = Inl TypeError"

text \<open>\<^verbatim>\<open>s.replace('Z', '+00:00')\<close>.\<close>

definition replace_Z :: "string \<Rightarrow> string" where
  "replace_Z s = concat (map (\<lambda>c. if c = CHR ''Z'' then ''+00:00'' else [c]) s)"

text \<open>
  What the cycle takes from its surroundings: the clock reading already formatted
  (\<^verbatim>\<open>datetime.now().strftime(...)\<close>), the library's \<^verbatim>\<open>datetime.fromisoformat\<close>
  (\<open>None\<close> is its \<^verbatim>\<open>ValueError\<close>; the strings it accepts differ between Python
  versions, so it is a parameter), and the UTC offset that the platform assigns to a
  naive reading taken as local time, or the exception it raises.
\<close>

record env =
  now :: string
  fromisoformat :: "string \<Rightarrow> pydatetime option"
  local_utcoffset :: "int \<Rightarrow> py_error + int"

definition parse_last_checked :: "env \<Rightarrow> json \<Rightarrow> py_error + pydatetime" where
  "parse_last_checked e v =
     (case v of
        JStr s \<Rightarrow>
          (case fromisoformat e (replace_Z s) of
             None \<Rightarrow> Inl ValueError
           | Some t \<Rightarrow> Inr t)
      | _ \<Rightarrow> Inl AttributeError)"

text \<open>
  The first loop (lines 74 to 82). A timestamp that does not parse is skipped by the
  handler of \<^verbatim>\<open>(ValueError, AttributeError)\<close>; the comparison is inside the same
  \<^verbatim>\<open>try\<close>, but its \<^verbatim>\<open>TypeError\<close> is not among the handled exceptions.
\<close>

fun scan_last_checked :: "env \<Rightarrow> json list \<Rightarrow> pydatetime option \<Rightarrow> py_error + pydatetime option" where
  "scan_last_checked e [] latest = Inr latest"
| "scan_last_checked e (v # vs) latest =
     (case v of
        JObj m \<Rightarrow>
          (case fmlookup m ''last_checked'' of
             None \<Rightarrow> scan_last_checked e vs latest
           | Some lc \<Rightarrow>
               (case parse_last_checked e lc of
                  Inl err \<Rightarrow> scan_last_checked e vs latest
                | Inr t \<Rightarrow>
                    (case latest of
                       None \<Rightarrow> scan_last_checked e vs (Some t)
                     | Some l \<Rightarrow>
                         (case dt_gt t l of
                            Inl err \<Rightarrow> Inl err
                          | Inr b \<Rightarrow> scan_last_checked e vs (Some (if b then t else l))))))
      | _ \<Rightarrow> scan_last_checked e vs latest)"

text \<open>
  \<^verbatim>\<open>latest_update.astimezone(tz.tzoffset(None, 3*60*60))\<close>: the value is taken to UTC
  by subtracting its offset (a naive value first gets the platform's local offset), and
  \<^verbatim>\<open>fromutc\<close> adds three hours; either step raises \<^verbatim>\<open>OverflowError\<close> when it leaves
  the range of \<^verbatim>\<open>datetime\<close>. The result is the reading at UTC+3.
\<close>

definition turkey_offset :: int where
  "turkey_offset = 3 * 60 * 60 * 1000000"

definition shift_to_turkey :: "int \<Rightarrow> int \<Rightarrow> py_error + int" where
  "shift_to_turkey w off =
     (if \<not> in_range (w - off) then Inl OverflowError
      else if \<not> in_range (w - off + turkey_offset) then Inl OverflowError
      else Inr (w - off + turkey_offset))"

definition astimezone_turkey :: "env \<Rightarrow> pydatetime \<Rightarrow> py_error + int" where
  "astimezone_turkey e t =
     (case t of
        Aware w off \<Rightarrow> shift_to_turkey w off
      | Naive w \<Rightarrow>
          (case local_utcoffset e w of
             Inl err \<Rightarrow> Inl err
           | Inr off \<Rightarrow> shift_to_turkey w off))"

text \<open>The proleptic Gregorian ordinal of a day to year, month and day, as \<^verbatim>\<open>_ord2ymd\<close>.\<close>

definition days_before_month :: "nat \<Rightarrow> nat" where
  "days_before_month m = [0, 0, 31, 59, 90, 120, 151, 181, 212, 243, 273, 304, 334] ! m"

definition ord2ymd :: "nat \<Rightarrow> ymd" where
  "ord2ymd ordinal =
     (let n0 = ordinal - 1;
          n400 = n0 div 146097; r400 = n0 mod 146097;
          n100 = r400 div 36524; r100 = r400 mod 36524;
          n4 = r100 div 1461; r4 = r100 mod 1461;
          n1 = r4 div 365; n = r4 mod 365;
          year = n400 * 400 + 1 + n100 * 100 + n4 * 4 + n1
      in if n1 = 4 \<or> n100 = 4 then (year - 1, 12, 31)
         else
           (let leapyear = (n1 = 3 \<and> (n4 \<noteq> 24 \<or> n100 = 3));
                month = (n + 50) div 32;
                preceding = days_before_month month + (if month > 2 \<and> leapyear then 1 else 0)
            in if preceding > n
               then (year, month - 1,
                     n + (days_in_month year (month - 1)) - preceding + 1)
               else (year, month, n - preceding + 1)))"

text \<open>\<^verbatim>\<open>strftime('%d.%m.%Y - %H:%M:%S')\<close> of a reading.\<close>

definition strftime_full :: "int \<Rightarrow> string" where
  "strftime_full w =
     (let days = nat (w div us_per_day);
          secs = nat ((w mod us_per_day) div 1000000)
      in strftime_dmY (ord2ymd (days + 1)) @ '' - '' @ pad2 (secs div 3600) @ '':''
           @ pad2 ((secs div 60) mod 60) @ '':'' @ pad2 (secs mod 60))"

text \<open>Lines 69 to 87: the scan only runs on a non-empty list.\<close>

definition compute_api_last_checked :: "env \<Rightarrow> json \<Rightarrow> py_error + string option" where
  "compute_api_last_checked e data =
     (case data of
        JList vs \<Rightarrow>
          if vs = [] then Inr None
          else
            (case scan_last_checked e vs None of
               Inl err \<Rightarrow> Inl err
             | Inr None \<Rightarrow> Inr None
             | Inr (Some t) \<Rightarrow>
                 (case astimezone_turkey e t of
                    Inl err \<Rightarrow> Inl err
                  | Inr w \<Rightarrow> Inr (Some (strftime_full w))))
      | _ \<Rightarrow> Inr None)"

section \<open>The cycle\<close>

text \<open>
  What \<^verbatim>\<open>requests.get(url, timeout=30)\<close> and \<^verbatim>\<open>response.json()\<close> give: an exception
  of the request, a body that is not JSON, or the decoded body.
\<close>

datatype response = RequestFailed | NotJson | Body json

text \<open>
  \<^verbatim>\<open>for appointment in data\<close>: a list yields its elements, a string its characters,
  a dict its keys; \<^verbatim>\<open>None\<close>, a boolean and a number are not iterable. The keys of a
  dict are listed in sorted order here where Python lists them in insertion order: each
  of them is a string, which the first guard of the loop body skips.
\<close>

definition iterate :: "json \<Rightarrow> py_error + json list" where
  "iterate data =
     (case data of
        JList vs \<Rightarrow> Inr vs
      | JStr s \<Rightarrow> Inr (map (\<lambda>c. JStr [c]) s)
      | JObj m \<Rightarrow> Inr (map JStr (sorted_list_of_fset (fmdom m)))
      | _ \<Rightarrow> Inl TypeError)"

text \<open>The default of \<^verbatim>\<open>scan_history.get('last_scan', ...)\<close>, as the source file has it.\<close>

definition first_check :: string where
  "first_check = [CHR 0xC3, CHR 0x84, CHR 0xC2, CHR 0xB0] @ ''lk Kontrol''"

text \<open>
  \<^verbatim>\<open>check_appointments\<close>. The left component is what the thread emits: \<open>Inr\<close> is the
  dict sent on \<^verbatim>\<open>update_signal\<close>, \<open>Inl\<close> the exception whose text goes out on
  \<^verbatim>\<open>error_signal\<close> from the outer handler. The right component is the
  \<^verbatim>\<open>scan_history\<close> dict after the cycle, which the cycle then dumps to the history
  file (a failure to write the file is logged and changes nothing else). An exception
  inside the second loop leaves the entries stored before it in the dict.
\<close>

definition check_appointments ::
  "env \<Rightarrow> settings \<Rightarrow> scan_history \<Rightarrow> response \<Rightarrow> (py_error + poll_result) \<times> scan_history" where
  "check_appointments e s h resp =
     (case resp of
        RequestFailed \<Rightarrow> (Inl RequestException, h)
      | NotJson \<Rightarrow> (Inl JSONDecodeError, h)
      | Body data \<Rightarrow>
          (let last = (case last_scan h of None \<Rightarrow> JStr first_check | Some v \<Rightarrow> v) in
           case compute_api_last_checked e data of
             Inl err \<Rightarrow> (Inl err, h)
           | Inr api \<Rightarrow>
               (case iterate data of
                  Inl err \<Rightarrow> (Inl err, h)
                | Inr vs \<Rightarrow>
                    (case process_listing s vs [] (stored h) of
                       (Inl err, st) \<Rightarrow> (Inl err, h\<lparr>stored := st\<rparr>)
                     | (Inr found, st) \<Rightarrow>
                         (Inr \<lparr> current_time = now e, last_check = last,
                                api_last_checked = api, appointments = found \<rparr>,
                          \<lparr> last_scan = Some (JStr (now e)), stored = st \<rparr>)))))"

section \<open>An instance of the surroundings for closed examples\<close>

text \<open>
  The closed examples below need a concrete parser. \<open>fromisoformat_seconds\<close> accepts
  the strings \<^verbatim>\<open>YYYY-MM-DDTHH:MM:SS\<close>, optionally followed by \<^verbatim>\<open>+HH:MM\<close> or
  \<^verbatim>\<open>-HH:MM\<close>, and gives on them the value that \<^verbatim>\<open>datetime.fromisoformat\<close> gives in
  every Python version that has it; it returns \<open>None\<close> on everything else, where the
  library accepts more. The examples use it on strings of that shape and on strings
  that no version accepts.
\<close>

definition num2 :: "string \<Rightarrow> nat option" where
  "num2 s = (case s of
     [a, b] \<Rightarrow> if is_digit a \<and> is_digit b then Some (10 * digit_val a + digit_val b) else None
   | _ \<Rightarrow> None)"

definition days_before_year :: "nat \<Rightarrow> nat" where
  "days_before_year y = (y - 1) * 365 + (y - 1) div 4 - (y - 1) div 100 + (y - 1) div 400"

definition ymd2ord :: "ymd \<Rightarrow> nat" where
  "ymd2ord t = (case t of (y, m, d) \<Rightarrow>
     days_before_year y + days_before_month m + (if m > 2 \<and> is_leap y then 1 else 0) + d)"

definition parse_date10 :: "string \<Rightarrow> ymd option" where
  "parse_date10 s =
     (if length s = 10 \<and> s ! 4 = CHR ''-'' \<and> s ! 7 = CHR ''-''
      then (case (match_Y (take 4 s), num2 (take 2 (drop 5 s)), num2 (drop 8 s)) of
              (Some (y, r), Some m, Some d) \<Rightarrow> if valid_ymd (y, m, d) then Some (y, m, d) else None
            | _ \<Rightarrow> None)
      else None)"

definition parse_time8 :: "string \<Rightarrow> nat option" where
  "parse_time8 s =
     (if length s = 8 \<and> s ! 2 = CHR '':'' \<and> s ! 5 = CHR '':''
      then (case (num2 (take 2 s), num2 (take 2 (drop 3 s)), num2 (drop 6 s)) of
              (Some h, Some m, Some sec) \<Rightarrow>
                if h < 24 \<and> m < 60 \<and> sec < 60 then Some ((h * 60 + m) * 60 + sec) else None
            | _ \<Rightarrow> None)
      else None)"

definition parse_offset6 :: "string \<Rightarrow> int option" where
  "parse_offset6 s =
     (if length s = 6 \<and> s ! 0 \<in> set ''+-'' \<and> s ! 3 = CHR '':''
      then (case (num2 (take 2 (drop 1 s)), num2 (drop 4 s)) of
              (Some h, Some m) \<Rightarrow>
                if h < 24 \<and> m < 60
                then Some ((if s ! 0 = CHR ''-'' then - 1 else 1) * int ((h * 60 + m) * 60) * 1000000)
                else None
            | _ \<Rightarrow> None)
      else None)"

definition fromisoformat_seconds :: "string \<Rightarrow> pydatetime option" where
  "fromisoformat_seconds s =
     (if (length s = 19 \<or> length s = 25) \<and> s ! 10 = CHR ''T''
      then (case (parse_date10 (take 10 s), parse_time8 (take 8 (drop 11 s))) of
              (Some t, Some secs) \<Rightarrow>
                (let w = (int (ymd2ord t) - 1) * us_per_day + int secs * 1000000
                 in if length s = 19 then Some (Naive w)
                    else map_option (Aware w) (parse_offset6 (drop 19 s)))
            | _ \<Rightarrow> None)
      else None)"

text \<open>A machine whose local time is UTC, at noon of the first of June 2024.\<close>

definition env0 :: env where
  "env0 = \<lparr> now = ''01.06.2024 - 12:00:00'', fromisoformat = fromisoformat_seconds,
            local_utcoffset = (\<lambda>w. Inr 0) \<rparr>"

definition settings0 :: settings where
  "settings0 = \<lparr> source_country = ''Turkey'', mission_country = ''Germany'',
                 send_all_updates = False \<rparr>"

text \<open>The history that \<^verbatim>\<open>load_scan_history\<close> creates when there is no history file.\<close>

definition history0 :: scan_history where
  "history0 = \<lparr> last_scan = Some JNull, stored = Map.empty \<rparr>"

text \<open>A record of the feed for the pair Turkey and Germany, with a date and a count.\<close>

definition record0 :: "string \<Rightarrow> int \<Rightarrow> json" where
  "record0 d n = JObj (fmap_of_list
     [(''source_country'', JStr ''Turkey''), (''mission_country'', JStr ''Germany''),
      (''appointment_date'', JStr d), (''people_looking'', JInt n)])"

text \<open>The \<^verbatim>\<open>appointment_info\<close> that such a record gives, before any comparison.\<close>

definition info0 :: "string \<Rightarrow> int \<Rightarrow> appointment_info" where
  "info0 d n = \<lparr> date = d, center = JStr unspecified, visa_category = JStr unspecified,
                 visa_subcategory = JStr unspecified, people_looking = JInt n,
                 link = JStr ''#'', people_looking_change = None \<rparr>"

section \<open>Keys of a listing\<close>

text \<open>
  The keys under which the loop stores the records of a listing, in the order of the
  listing. The feed has one record for each centre and visa category, and the key has
  only the two countries and the date, so a key can occur more than once.
\<close>

fun listing_keys :: "settings \<Rightarrow> json list \<Rightarrow> string list" where
  "listing_keys s [] = []"
| "listing_keys s (v # vs) =
     (case appointment_entry s v of
        None \<Rightarrow> listing_keys s vs
      | Some (k, info) \<Rightarrow> k # listing_keys s vs)"

text \<open>Records of the listing that are stored under the same key carry equal counts.\<close>

definition same_key_same_count :: "settings \<Rightarrow> json list \<Rightarrow> bool" where
  "same_key_same_count s vs =
     (\<forall>v\<in>set vs. \<forall>w\<in>set vs.
        case (appointment_entry s v, appointment_entry s w) of
          (Some (k, i), Some (k', j)) \<Rightarrow> k = k' \<longrightarrow> py_eq (people_looking i) (people_looking j)
        | _ \<Rightarrow> True)"

text \<open>
  The history holds, under a key, an entry whose count is that of some record of the
  listing with this key.
\<close>

definition holds_count_of :: "settings \<Rightarrow> json list \<Rightarrow> (string \<rightharpoonup> appointment_info) \<Rightarrow> string \<Rightarrow> bool" where
  "holds_count_of s vs st k =
     (\<exists>p v i. st k = Some p \<and> v \<in> set vs \<and> appointment_entry s v = Some (k, i)
        \<and> people_looking p = people_looking i)"

section \<open>The report to the messaging sink\<close>

text \<open>
  \<^verbatim>\<open>str\<close> of an integer, and of a decoded value as an f-string inserts it. The text of
  a list or a dict is Python's \<^verbatim>\<open>repr\<close> of its elements, which the report passes
  through unchanged; it is a parameter, together with the text of the exception that
  \<^verbatim>\<open>strptime\<close> raises on a given string.
\<close>

fun str_nat :: "nat \<Rightarrow> string" where
  "str_nat n = (if n < 10 then [digit_char n] else str_nat (n div 10) @ [digit_char n])"

definition str_int :: "int \<Rightarrow> string" where
  "str_int i = (if i < 0 then ''-'' @ str_nat (nat (- i)) else str_nat (nat i))"

record rendering =
  repr_container :: "json \<Rightarrow> string"
  strptime_error :: "string \<Rightarrow> string"

definition py_str :: "rendering \<Rightarrow> json \<Rightarrow> string" where
  "py_str r v =
     (case v of
        JNull \<Rightarrow> ''None''
      | JBool b \<Rightarrow> (if b then ''True'' else ''False'')
      | JInt n \<Rightarrow> str_int n
      | JStr t \<Rightarrow> t
      | _ \<Rightarrow> repr_container r v)"

text \<open>The literals of the report, byte for byte as the source file has them.\<close>

definition newline :: string where
  "newline = [CHR 0x0A]"

definition report_title :: string where
  "report_title = [CHR 0xC4, CHR 0x9F, CHR 0xC5, CHR 0xB8, CHR 0xE2, CHR 0x80, CHR 0x9D,
     CHR 0xE2, CHR 0x80, CHR 0x9E] @ '' Randevu Kontrol Raporu'' @ newline"

definition route_line :: "settings \<Rightarrow> string" where
  "route_line s = [CHR 0xC4, CHR 0x9F, CHR 0xC5, CHR 0xB8, CHR 0xC5, CHR 0x92] @ '' ''
     @ source_country s @ '' ''
     @ [CHR 0xC3, CHR 0xA2, CHR 0xC2, CHR 0xA1, CHR 0xC3, CHR 0xAF, CHR 0xC2, CHR 0xB8] @ '' ''
     @ mission_country s @ newline"

definition check_time_line :: "string \<Rightarrow> string" where
  "check_time_line t = [CHR 0xC3, CHR 0xA2, CHR 0xC2, CHR 0xB0] @ '' Kontrol Zaman''
     @ [CHR 0xC3, CHR 0x84, CHR 0xC2, CHR 0xB1] @ '': '' @ t @ newline"

definition last_message_line :: "string \<Rightarrow> string" where
  "last_message_line t = [CHR 0xC4, CHR 0x9F, CHR 0xC5, CHR 0xB8, CHR 0xE2, CHR 0x80, CHR 0x9C,
     CHR 0xC2, CHR 0xA4] @ '' Son Mesaj: '' @ t @ newline"

definition api_update_line :: "string \<Rightarrow> string" where
  "api_update_line t = [CHR 0xC4, CHR 0x9F, CHR 0xC5, CHR 0xB8, CHR 0xE2, CHR 0x80, CHR 0x9D,
     CHR 0xE2, CHR 0x80, CHR 0x9E] @ '' API Son G'' @ [CHR 0xC3, CHR 0x83, CHR 0xC2, CHR 0xBC]
     @ ''ncelleme: '' @ t @ newline"

definition available_line :: "nat \<Rightarrow> string" where
  "available_line n = [CHR 0xC4, CHR 0x9F, CHR 0xC5, CHR 0xB8, CHR 0xE2, CHR 0x80, CHR 0x9C,
     CHR 0xE2, CHR 0x80, CHR 0xA6] @ '' Mevcut Randevular ('' @ str_nat n @ ''):''
     @ newline @ newline"

definition no_appointments_footer :: string where
  "no_appointments_footer = [CHR 0xC3, CHR 0xA2, CHR 0xC5, CHR 0x92] @ '' '' @ [CHR 0xC3, CHR 0x85]
     @ ''u anda uygun randevu bulunmamaktad'' @ [CHR 0xC3, CHR 0x84, CHR 0xC2, CHR 0xB1] @ ''r.''"

definition error_prefix :: string where
  "error_prefix = [CHR 0xC3, CHR 0xA2, CHR 0xC5, CHR 0xA1, CHR 0xC2, CHR 0xA0, CHR 0xC3, CHR 0xAF,
     CHR 0xC2, CHR 0xB8] @ '' Hata: ''"

text \<open>Lines 578 to 581: the count, with the signed change when the dict has one.\<close>

definition people_info :: "rendering \<Rightarrow> appointment_info \<Rightarrow> string" where
  "people_info r apt =
     [CHR 0xC4, CHR 0x9F, CHR 0xC5, CHR 0xB8, CHR 0xE2, CHR 0x80, CHR 0x98, CHR 0xC2, CHR 0xA5]
     @ '' Bekleyen Ki'' @ [CHR 0xC3, CHR 0x85, CHR 0xC5, CHR 0xB8] @ ''i: ''
     @ py_str r (people_looking apt)
     @ (case people_looking_change apt of
          None \<Rightarrow> []
        | Some change \<Rightarrow>
            '' ('' @ (if change > 0 then ''+'' else []) @ str_int change @ '' de''
            @ [CHR 0xC3, CHR 0x84, CHR 0xC5, CHR 0xB8] @ ''i'' @ [CHR 0xC3, CHR 0x85, CHR 0xC5, CHR 0xB8]
            @ ''im)'')"

text \<open>Lines 583 to 590: the block of one appointment.\<close>

definition appointment_block :: "rendering \<Rightarrow> appointment_info \<Rightarrow> string" where
  "appointment_block r apt =
     [CHR 0xC4, CHR 0x9F, CHR 0xC5, CHR 0xB8, CHR 0xE2, CHR 0x80, CHR 0x9C, CHR 0xE2, CHR 0x80, CHR 0xA6]
       @ '' Tarih: '' @ date apt @ newline
     @ [CHR 0xC4, CHR 0x9F, CHR 0xC5, CHR 0xB8, CHR 0xC2, CHR 0xA2]
       @ '' Merkez: '' @ py_str r (center apt) @ newline
     @ [CHR 0xC4, CHR 0x9F, CHR 0xC5, CHR 0xB8, CHR 0xE2, CHR 0x80, CHR 0x9C, CHR 0xE2, CHR 0x80, CHR 0xB9]
       @ '' Vize Tipi: '' @ py_str r (visa_category apt) @ newline
     @ [CHR 0xC4, CHR 0x9F, CHR 0xC5, CHR 0xB8, CHR 0xE2, CHR 0x80, CHR 0x9C]
       @ '' Alt Kategori: '' @ py_str r (visa_subcategory apt) @ newline
     @ people_info r apt @ newline
     @ [CHR 0xC4, CHR 0x9F, CHR 0xC5, CHR 0xB8, CHR 0xE2, CHR 0x80, CHR 0x9D, CHR 0xE2, CHR 0x80, CHR 0x94]
       @ '' <a href='' @ [CHR 0x27] @ py_str r (link apt) @ [CHR 0x27]
       @ ''>Randevu Linki</a>'' @ newline @ newline"

text \<open>
  Lines 560 to 570: the head of the report. The feed timestamp is added when it is
  truthy, that is, present and not empty.
\<close>

definition report_head :: "rendering \<Rightarrow> settings \<Rightarrow> poll_result \<Rightarrow> string" where
  "report_head r s res =
     report_title @ route_line s @ check_time_line (current_time res)
     @ last_message_line (py_str r (last_check res))
     @ (case api_last_checked res of
          None \<Rightarrow> []
        | Some t \<Rightarrow> if t = [] then [] else api_update_line t)
     @ newline"

text \<open>
  \<^verbatim>\<open>handle_error\<close>, as far as the sink is concerned: one message with the text of the
  error. (Its restart of a worker thread that has died is outside this model.)
\<close>

definition handle_error :: "string \<Rightarrow> string list" where
  "handle_error error_msg = [error_prefix @ error_msg]"

text \<open>
  The key of the sort at line 574, \<^verbatim>\<open>datetime.strptime(x['date'], '%d.%m.%Y')\<close>; two
  such values compare as their dates do.
\<close>

definition date_key :: "appointment_info \<Rightarrow> ymd option" where
  "date_key apt = strptime_dmY (date apt)"

definition date_key_of :: "appointment_info \<Rightarrow> ymd" where
  "date_key_of apt = (case date_key apt of None \<Rightarrow> (0, 0, 0) | Some t \<Rightarrow> t)"

text \<open>
  \<^verbatim>\<open>handle_update\<close>: the texts handed to \<^verbatim>\<open>send_telegram_message\<close>, in order, and
  the result dict as the handler leaves it (\<^verbatim>\<open>list.sort\<close> sorts the list of the dict
  in place and is stable, as \<open>sort_key\<close> is). The keys are computed for the whole list
  before anything moves: the first date that does not parse raises \<^verbatim>\<open>ValueError\<close>,
  the list stays as it was, and the handler at line 598 passes the text of the
  exception to \<^verbatim>\<open>handle_error\<close>. \<^verbatim>\<open>send_telegram_message\<close> swallows every failure
  of the delivery.
\<close>

definition handle_update :: "rendering \<Rightarrow> settings \<Rightarrow> poll_result \<Rightarrow> string list \<times> poll_result" where
  "handle_update r s res =
     (if appointments res \<noteq> [] then
        (case find (\<lambda>x. date_key x = None) (appointments res) of
           Some bad \<Rightarrow> (handle_error (strptime_error r (date bad)), res)
         | None \<Rightarrow>
             (let sorted_apts = sort_key date_key_of (appointments res)
              in ([report_head r s res @ available_line (length sorted_apts)
                    @ concat (map (appointment_block r) sorted_apts)],
                  res\<lparr>appointments := sorted_apts\<rparr>)))
      else
        (if send_all_updates s
         then ([report_head r s res @ no_appointments_footer], res)
         else ([], res)))"

text \<open>
  A rendering for the closed examples, which hold no list or dict in a text field and no
  date that fails to parse, so that neither function is ever applied.
\<close>

definition rendering0 :: rendering where
  "rendering0 = \<lparr> repr_container = (\<lambda>v. []), strptime_error = (\<lambda>t. []) \<rparr>"


section \<open>The latest timestamp of a listing\<close>







section \<open>Basic facts about the cycle\<close>

lemmas date_eval = strptime_Ymd_def strptime_dmY_def is_digit_def digit_val_def is_digit19_def
  valid_ymd_def days_in_month_def is_leap_def strftime_dmY_def strftime_Ymd_def pad2_def
  pad4_def digit_char_def

lemmas cycle_eval = check_appointments_def compute_api_last_checked_def iterate_def
  appointment_entry_def has_required_def required_fields_def field_truthy_def get_default_def
  parse_appointment_date_def build_info_def appointment_key_def annotate_def

lemmas example_eval = env0_def settings0_def history0_def record0_def info0_def

lemma entry_not_required: "\<not> has_required m \<Longrightarrow> appointment_entry s (JObj m) = None"
  by (simp add: appointment_entry_def)

lemma process_listing_skip:
  "appointment_entry s v = None \<Longrightarrow>
   process_listing s (xs @ v # ys) acc h = process_listing s (xs @ ys) acc h"
  by (induction xs arbitrary: acc h) (auto split: option.splits sum.splits)

lemma check_appointments_Inr:
  assumes "check_appointments e s h (Body data) = (Inr res, h')"
  shows "\<exists>vs. iterate data = Inr vs
           \<and> process_listing s vs [] (stored h) = (Inr (appointments res), stored h')
           \<and> compute_api_last_checked e data = Inr (api_last_checked res)
           \<and> current_time res = now e
           \<and> last_check res = (case last_scan h of None \<Rightarrow> JStr first_check | Some v \<Rightarrow> v)
           \<and> last_scan h' = Some (JStr (now e))"
  using assms
  by (auto simp: check_appointments_def Let_def split: sum.splits prod.splits)

lemma missing_not_required:
  "f \<in> set required_fields \<Longrightarrow> fmlookup m f = None \<Longrightarrow> \<not> has_required m"
  unfolding has_required_def list_all_iff field_truthy_def
  by (auto intro!: bexI[of _ f])

lemma falsy_not_required:
  "f \<in> set required_fields \<Longrightarrow> fmlookup m f = Some v \<Longrightarrow> \<not> truthy v \<Longrightarrow> \<not> has_required m"
  unfolding has_required_def list_all_iff field_truthy_def
  by (auto intro!: bexI[of _ f])

section \<open>Records without the required fields\<close>

text \<open>
  Claim C4. A record that lacks \<^verbatim>\<open>source_country\<close>, \<^verbatim>\<open>mission_country\<close> or
  \<^verbatim>\<open>appointment_date\<close> leaves no trace, wherever it stands in the listing: the loop
  gives the same appointments and the same history dict (or the same exception) as on
  the listing without the record, and when the cycle on the listing emits a result, the
  appointment list of that result and the history dict after the cycle are those that
  the loop computes from the listing without the record.
\<close>

theorem missing_field_dropped:
  assumes "f \<in> set required_fields" and "fmlookup m f = None"
  shows "process_listing s (xs @ JObj m # ys) acc st = process_listing s (xs @ ys) acc st
       \<and> (check_appointments e s h (Body (JList (xs @ JObj m # ys))) = (Inr res, h') \<longrightarrow>
            process_listing s (xs @ ys) [] (stored h) = (Inr (appointments res), stored h'))"
proof -
  have n: "appointment_entry s (JObj m) = None"
    using assms by (simp add: entry_not_required missing_not_required)
  have a: "process_listing s (xs @ JObj m # ys) acc' st' = process_listing s (xs @ ys) acc' st'"
    for acc' st'
    using n by (rule process_listing_skip)
  have "process_listing s (xs @ ys) [] (stored h) = (Inr (appointments res), stored h')"
    if "check_appointments e s h (Body (JList (xs @ JObj m # ys))) = (Inr res, h')"
    using check_appointments_Inr[OF that] a by (auto simp: iterate_def)
  with a show ?thesis by blast
qed

theorem missing_field_dropped_witness:
  "''appointment_date'' \<in> set required_fields
   \<and> fmlookup (fmap_of_list [(''source_country'', JStr ''Turkey''),
        (''mission_country'', JStr ''Germany''), (''people_looking'', JInt 3)])
       ''appointment_date'' = None
   \<and> check_appointments env0 settings0 history0
       (Body (JList ([record0 ''2024-05-01'' 12]
          @ JObj (fmap_of_list [(''source_country'', JStr ''Turkey''),
               (''mission_country'', JStr ''Germany''), (''people_looking'', JInt 3)])
          # [record0 ''2024-05-02'' 5])))
     = (Inr \<lparr> current_time = ''01.06.2024 - 12:00:00'', last_check = JNull,
              api_last_checked = None,
              appointments = [info0 ''01.05.2024'' 12, info0 ''02.05.2024'' 5] \<rparr>,
        \<lparr> last_scan = Some (JStr ''01.06.2024 - 12:00:00''),
          stored = [''Turkey_Germany_2024-05-01'' \<mapsto> info0 ''01.05.2024'' 12,
                    ''Turkey_Germany_2024-05-02'' \<mapsto> info0 ''02.05.2024'' 5] \<rparr>)
   \<and> process_listing settings0 ([record0 ''2024-05-01'' 12] @ [record0 ''2024-05-02'' 5]) []
       (stored history0)
     = (Inr [info0 ''01.05.2024'' 12, info0 ''02.05.2024'' 5],
        [''Turkey_Germany_2024-05-01'' \<mapsto> info0 ''01.05.2024'' 12,
         ''Turkey_Germany_2024-05-02'' \<mapsto> info0 ''02.05.2024'' 5])"
proof -
  let ?m = "fmap_of_list [(''source_country'', JStr ''Turkey''),
        (''mission_country'', JStr ''Germany''), (''people_looking'', JInt 3)]"
  have f: "''appointment_date'' \<in> set required_fields"
    by (simp add: required_fields_def)
  have l: "fmlookup ?m ''appointment_date'' = None"
    by simp
  have c: "check_appointments env0 settings0 history0
       (Body (JList ([record0 ''2024-05-01'' 12] @ JObj ?m # [record0 ''2024-05-02'' 5])))
     = (Inr \<lparr> current_time = ''01.06.2024 - 12:00:00'', last_check = JNull,
              api_last_checked = None,
              appointments = [info0 ''01.05.2024'' 12, info0 ''02.05.2024'' 5] \<rparr>,
        \<lparr> last_scan = Some (JStr ''01.06.2024 - 12:00:00''),
          stored = [''Turkey_Germany_2024-05-01'' \<mapsto> info0 ''01.05.2024'' 12,
                    ''Turkey_Germany_2024-05-02'' \<mapsto> info0 ''02.05.2024'' 5] \<rparr>)"
    by (simp add: cycle_eval date_eval example_eval)
  from missing_field_dropped[OF f l, of settings0 "[record0 ''2024-05-01'' 12]"
      "[record0 ''2024-05-02'' 5]" "[]" "stored history0" env0 history0, THEN conjunct2,
      rule_format, OF c]
  show ?thesis using f l c by simp
qed

text \<open>
  Claim C10. A record whose \<^verbatim>\<open>source_country\<close>, \<^verbatim>\<open>mission_country\<close> or
  \<^verbatim>\<open>appointment_date\<close> is present with a falsy value (\<^verbatim>\<open>None\<close>, \<^verbatim>\<open>False\<close>,
  \<^verbatim>\<open>0\<close>, an empty string, list or dict) is dropped like a record without the field:
  the guard tests the value that \<^verbatim>\<open>get\<close> returns, not the presence of the key. The
  loop, the emitted appointment list and the history dict are those of the listing
  without the record.
\<close>

theorem falsy_field_dropped:
  assumes "f \<in> set required_fields" and "fmlookup m f = Some v" and "\<not> truthy v"
  shows "process_listing s (xs @ JObj m # ys) acc st = process_listing s (xs @ ys) acc st
       \<and> (check_appointments e s h (Body (JList (xs @ JObj m # ys))) = (Inr res, h') \<longrightarrow>
            process_listing s (xs @ ys) [] (stored h) = (Inr (appointments res), stored h'))"
proof -
  have n: "appointment_entry s (JObj m) = None"
    using assms falsy_not_required[of f m v] by (simp add: entry_not_required)
  have a: "process_listing s (xs @ JObj m # ys) acc' st' = process_listing s (xs @ ys) acc' st'"
    for acc' st'
    using n by (rule process_listing_skip)
  have "process_listing s (xs @ ys) [] (stored h) = (Inr (appointments res), stored h')"
    if "check_appointments e s h (Body (JList (xs @ JObj m # ys))) = (Inr res, h')"
    using check_appointments_Inr[OF that] a by (auto simp: iterate_def)
  with a show ?thesis by blast
qed

text \<open>
  The example runs under the default settings, whose two countries are empty strings:
  a record with empty countries and a good date passes the country test, and only the
  truth test of the guard keeps it out.
\<close>

theorem falsy_field_dropped_witness:
  "''source_country'' \<in> set required_fields
   \<and> fmlookup (fmap_of_list [(''source_country'', JStr []), (''mission_country'', JStr []),
        (''appointment_date'', JStr ''2024-05-01'')]) ''source_country'' = Some (JStr [])
   \<and> \<not> truthy (JStr [])
   \<and> check_appointments env0
        \<lparr> source_country = [], mission_country = [], send_all_updates = True \<rparr> history0
        (Body (JList ([] @ JObj (fmap_of_list [(''source_country'', JStr []),
           (''mission_country'', JStr []), (''appointment_date'', JStr ''2024-05-01'')]) # [])))
     = (Inr \<lparr> current_time = ''01.06.2024 - 12:00:00'', last_check = JNull,
              api_last_checked = None, appointments = [] \<rparr>,
        \<lparr> last_scan = Some (JStr ''01.06.2024 - 12:00:00''), stored = Map.empty \<rparr>)
   \<and> process_listing \<lparr> source_country = [], mission_country = [], send_all_updates = True \<rparr>
        ([] @ []) [] (stored history0)
     = (Inr [], Map.empty)"
proof -
  let ?m = "fmap_of_list [(''source_country'', JStr []), (''mission_country'', JStr []),
        (''appointment_date'', JStr ''2024-05-01'')]"
  let ?s = "\<lparr> source_country = [], mission_country = [], send_all_updates = True \<rparr>"
  have f: "''source_country'' \<in> set required_fields"
    by (simp add: required_fields_def)
  have l: "fmlookup ?m ''source_country'' = Some (JStr [])"
    by simp
  have t: "\<not> truthy (JStr [])"
    by simp
  have c: "check_appointments env0 ?s history0 (Body (JList ([] @ JObj ?m # [])))
     = (Inr \<lparr> current_time = ''01.06.2024 - 12:00:00'', last_check = JNull,
              api_last_checked = None, appointments = [] \<rparr>,
        \<lparr> last_scan = Some (JStr ''01.06.2024 - 12:00:00''), stored = Map.empty \<rparr>)"
    by (simp add: cycle_eval date_eval example_eval)
  from falsy_field_dropped[OF f l t, of ?s "[]" "[]" "[]" "stored history0" env0 history0,
      THEN conjunct2, rule_format, OF c]
  show ?thesis using f l t c by simp
qed

section \<open>Where an emitted appointment comes from\<close>

lemma appointment_entry_Some:
  assumes "appointment_entry s v = Some (k, info)"
  shows "\<exists>m t. v = JObj m \<and> has_required m
           \<and> fmlookup m ''source_country'' = Some (JStr (source_country s))
           \<and> fmlookup m ''mission_country'' = Some (JStr (mission_country s))
           \<and> parse_appointment_date (get_default m ''appointment_date'' JNull) = Inr t
           \<and> k = appointment_key (source_country s) (mission_country s) t
           \<and> info = build_info m t"
  using assms
  by (auto simp: appointment_entry_def split: json.splits if_splits sum.splits)

lemma annotate_Inr:
  assumes "annotate h k info = Inr info'"
  shows "info' = info \<or> (\<exists>prev d. h k = Some prev \<and> \<not> py_eq (people_looking prev) (people_looking info)
            \<and> py_sub (people_looking info) (people_looking prev) = Inr d
            \<and> info' = info\<lparr>people_looking_change := Some d\<rparr>)"
  using assms
  by (auto simp: annotate_def split: option.splits if_splits sum.splits)

lemma annotate_base:
  "annotate h k info = Inr info' \<Longrightarrow> info'\<lparr>people_looking_change := None\<rparr> = info\<lparr>people_looking_change := None\<rparr>"
  by (drule annotate_Inr) auto

lemma process_listing_dom:
  "process_listing s vs acc st = (r, st') \<Longrightarrow> dom st \<subseteq> dom st'"
proof (induction vs arbitrary: acc st)
  case Nil
  then show ?case by simp
next
  case (Cons v vs)
  show ?case
  proof (cases "appointment_entry s v")
    case None
    with Cons show ?thesis by simp
  next
    case (Some p)
    obtain k info where p: "p = (k, info)" by (cases p)
    show ?thesis
    proof (cases "annotate st k info")
      case (Inl e)
      with Cons.prems Some p show ?thesis by simp
    next
      case (Inr info')
      with Cons.prems Some p have "process_listing s vs (acc @ [info']) (st(k \<mapsto> info')) = (r, st')"
        by simp
      from Cons.IH[OF this] have "dom (st(k \<mapsto> info')) \<subseteq> dom st'" .
      moreover have "dom st \<subseteq> dom (st(k \<mapsto> info'))" by auto
      ultimately show ?thesis by (rule order_trans[rotated])
    qed
  qed
qed

lemma process_listing_origin:
  assumes "process_listing s vs acc st = (Inr out, st')" and "x \<in> set out"
  shows "x \<in> set acc \<or> (\<exists>v\<in>set vs. \<exists>k info. appointment_entry s v = Some (k, info)
            \<and> x\<lparr>people_looking_change := None\<rparr> = info\<lparr>people_looking_change := None\<rparr> \<and> k \<in> dom st')"
  using assms
proof (induction vs arbitrary: acc st)
  case Nil
  then show ?case by simp
next
  case (Cons v vs)
  show ?case
  proof (cases "appointment_entry s v")
    case None
    with Cons.prems have "process_listing s vs acc st = (Inr out, st')" by simp
    from Cons.IH[OF this Cons.prems(2)] show ?thesis by auto
  next
    case (Some p)
    obtain k info where p: "p = (k, info)" by (cases p)
    show ?thesis
    proof (cases "annotate st k info")
      case (Inl e)
      with Cons.prems Some p show ?thesis by simp
    next
      case (Inr info')
      with Cons.prems Some p have r: "process_listing s vs (acc @ [info']) (st(k \<mapsto> info')) = (Inr out, st')"
        by simp
      from process_listing_dom[OF r] have kd: "k \<in> dom st'" by auto
      from Cons.IH[OF r Cons.prems(2)] show ?thesis
      proof
        assume "x \<in> set (acc @ [info'])"
        then show ?thesis using annotate_base[OF Inr] Some p kd by auto
      next
        assume "\<exists>v\<in>set vs. \<exists>k info. appointment_entry s v = Some (k, info)
            \<and> x\<lparr>people_looking_change := None\<rparr> = info\<lparr>people_looking_change := None\<rparr> \<and> k \<in> dom st'"
        then show ?thesis by auto
      qed
    qed
  qed
qed

lemma iterate_entries:
  assumes "iterate data = Inr vs" and "v \<in> set vs" and "appointment_entry s v = Some p"
  shows "data = JList vs"
  using assms by (auto simp: iterate_def appointment_entry_def split: json.splits)

text \<open>
  Claim C1. Whatever the body and the settings, every \<^verbatim>\<open>appointment_info\<close> in the
  list that a cycle emits was built from a record of the listing whose
  \<^verbatim>\<open>source_country\<close> and \<^verbatim>\<open>mission_country\<close> are the two countries of the settings,
  and the key under which the cycle stored it is made of these two countries and the
  record's date. (The \<^verbatim>\<open>appointment_info\<close> itself has no country fields; apart from the
  change annotation it is \<open>build_info\<close> of that record.)
\<close>

theorem filter_correctness:
  assumes "check_appointments e s h (Body data) = (Inr res, h')"
      and "x \<in> set (appointments res)"
  shows "\<exists>vs m t. data = JList vs \<and> JObj m \<in> set vs
           \<and> fmlookup m ''source_country'' = Some (JStr (source_country s))
           \<and> fmlookup m ''mission_country'' = Some (JStr (mission_country s))
           \<and> parse_appointment_date (get_default m ''appointment_date'' JNull) = Inr t
           \<and> x\<lparr>people_looking_change := None\<rparr> = build_info m t
           \<and> appointment_key (source_country s) (mission_country s) t \<in> dom (stored h')"
proof -
  from check_appointments_Inr[OF assms(1)] obtain vs where
    it: "iterate data = Inr vs" and
    pl: "process_listing s vs [] (stored h) = (Inr (appointments res), stored h')"
    by blast
  from process_listing_origin[OF pl assms(2)] obtain v k info where
    v: "v \<in> set vs" and en: "appointment_entry s v = Some (k, info)" and
    x: "x\<lparr>people_looking_change := None\<rparr> = info\<lparr>people_looking_change := None\<rparr>" and
    k: "k \<in> dom (stored h')"
    by auto
  from appointment_entry_Some[OF en] obtain m t where
    m: "v = JObj m" "fmlookup m ''source_country'' = Some (JStr (source_country s))"
       "fmlookup m ''mission_country'' = Some (JStr (mission_country s))"
       "parse_appointment_date (get_default m ''appointment_date'' JNull) = Inr t"
       "k = appointment_key (source_country s) (mission_country s) t"
       "info = build_info m t"
    by blast
  have "info\<lparr>people_looking_change := None\<rparr> = info"
    using m(6) by (simp add: build_info_def)
  with iterate_entries[OF it v en] v m x k show ?thesis
    by (intro exI[of _ vs] exI[of _ m] exI[of _ t]) auto
qed

theorem filter_correctness_witness:
  "check_appointments env0 settings0 history0
     (Body (JList [record0 ''2024-05-01'' 12,
        JObj (fmap_of_list [(''source_country'', JStr ''Turkey''),
          (''mission_country'', JStr ''France''), (''appointment_date'', JStr ''2024-05-03'')])]))
   = (Inr \<lparr> current_time = ''01.06.2024 - 12:00:00'', last_check = JNull,
            api_last_checked = None, appointments = [info0 ''01.05.2024'' 12] \<rparr>,
      \<lparr> last_scan = Some (JStr ''01.06.2024 - 12:00:00''),
        stored = [''Turkey_Germany_2024-05-01'' \<mapsto> info0 ''01.05.2024'' 12] \<rparr>)
   \<and> info0 ''01.05.2024'' 12
       \<in> set (appointments \<lparr> current_time = ''01.06.2024 - 12:00:00'', last_check = JNull,
            api_last_checked = None, appointments = [info0 ''01.05.2024'' 12] \<rparr>)
   \<and> (\<exists>vs m t.
         JList [record0 ''2024-05-01'' 12,
           JObj (fmap_of_list [(''source_country'', JStr ''Turkey''),
             (''mission_country'', JStr ''France''), (''appointment_date'', JStr ''2024-05-03'')])]
           = JList vs
         \<and> JObj m \<in> set vs
         \<and> fmlookup m ''source_country'' = Some (JStr (source_country settings0))
         \<and> fmlookup m ''mission_country'' = Some (JStr (mission_country settings0))
         \<and> parse_appointment_date (get_default m ''appointment_date'' JNull) = Inr t
         \<and> (info0 ''01.05.2024'' 12)\<lparr>people_looking_change := None\<rparr> = build_info m t
         \<and> appointment_key (source_country settings0) (mission_country settings0) t
             \<in> dom (stored \<lparr> last_scan = Some (JStr ''01.06.2024 - 12:00:00''),
                   stored = [''Turkey_Germany_2024-05-01'' \<mapsto> info0 ''01.05.2024'' 12] \<rparr>))"
proof -
  let ?res = "\<lparr> current_time = ''01.06.2024 - 12:00:00'', last_check = JNull,
            api_last_checked = None, appointments = [info0 ''01.05.2024'' 12] \<rparr>"
  let ?h = "\<lparr> last_scan = Some (JStr ''01.06.2024 - 12:00:00''),
        stored = [''Turkey_Germany_2024-05-01'' \<mapsto> info0 ''01.05.2024'' 12] \<rparr>"
  let ?data = "JList [record0 ''2024-05-01'' 12,
        JObj (fmap_of_list [(''source_country'', JStr ''Turkey''),
          (''mission_country'', JStr ''France''), (''appointment_date'', JStr ''2024-05-03'')])]"
  have c: "check_appointments env0 settings0 history0 (Body ?data) = (Inr ?res, ?h)"
    by (simp add: cycle_eval date_eval example_eval)
  have x: "info0 ''01.05.2024'' 12 \<in> set (appointments ?res)"
    by simp
  show ?thesis
    by (rule conjI[OF c conjI[OF x filter_correctness[OF c x]]])
qed

section \<open>A body that is not a list\<close>

lemma process_listing_none:
  "\<forall>v\<in>set vs. appointment_entry s v = None \<Longrightarrow> process_listing s vs acc st = (Inr acc, st)"
  by (induction vs) auto

lemma entry_JStr: "appointment_entry s (JStr t) = None"
  by (simp add: appointment_entry_def)

lemma check_str_body:
  "check_appointments e s h (Body (JStr t)) =
     (Inr \<lparr> current_time = now e,
            last_check = (case last_scan h of None \<Rightarrow> JStr first_check | Some v \<Rightarrow> v),
            api_last_checked = None, appointments = [] \<rparr>,
      \<lparr> last_scan = Some (JStr (now e)), stored = stored h \<rparr>)"
proof -
  have "process_listing s (map (\<lambda>c. JStr [c]) t) [] (stored h) = (Inr [], stored h)"
    by (rule process_listing_none) (auto simp: entry_JStr)
  then show ?thesis
    by (simp add: check_appointments_def compute_api_last_checked_def iterate_def)
qed

lemma check_obj_body:
  "check_appointments e s h (Body (JObj m)) =
     (Inr \<lparr> current_time = now e,
            last_check = (case last_scan h of None \<Rightarrow> JStr first_check | Some v \<Rightarrow> v),
            api_last_checked = None, appointments = [] \<rparr>,
      \<lparr> last_scan = Some (JStr (now e)), stored = stored h \<rparr>)"
proof -
  have "process_listing s (map JStr (sorted_list_of_fset (fmdom m))) [] (stored h) = (Inr [], stored h)"
    by (rule process_listing_none) (auto simp: entry_JStr)
  then show ?thesis
    by (simp add: check_appointments_def compute_api_last_checked_def iterate_def)
qed

lemma check_scalar_body:
  "data = JNull \<or> data = JBool b \<or> data = JInt n \<Longrightarrow>
   check_appointments e s h (Body data) = (Inl TypeError, h)"
  by (auto simp: check_appointments_def compute_api_last_checked_def iterate_def)

text \<open>
  Claim C5 says that a body which is not a JSON list never gives a normal result. It
  does when the body is a JSON object: the loop walks over the keys of the dict, skips
  each of them because a key is not a dict, and the cycle emits a result with an empty
  appointment list and moves \<open>last_scan\<close>.
\<close>

theorem non_list_body_counterexample:
  "check_appointments env0 settings0 history0
     (Body (JObj (fmap_of_list [(''detail'', JStr ''Not found.'')])))
   = (Inr \<lparr> current_time = ''01.06.2024 - 12:00:00'', last_check = JNull,
            api_last_checked = None, appointments = [] \<rparr>,
      \<lparr> last_scan = Some (JStr ''01.06.2024 - 12:00:00''), stored = Map.empty \<rparr>)"
  by (simp add: check_obj_body env0_def history0_def)

text \<open>
  Claim C5 as amended. A body that is \<^verbatim>\<open>null\<close>, a boolean or a number makes the cycle
  fail: \<^verbatim>\<open>for appointment in data\<close> raises \<^verbatim>\<open>TypeError\<close>, the outer handler emits it
  on \<^verbatim>\<open>error_signal\<close>, and the history is untouched. A body that is a JSON object or a
  JSON string does not fail: the cycle emits a result with an empty appointment list
  and no feed timestamp, and sets \<open>last_scan\<close>.
\<close>

theorem non_list_body:
  "(data = JNull \<or> (\<exists>b. data = JBool b) \<or> (\<exists>n. data = JInt n) \<longrightarrow>
      check_appointments e s h (Body data) = (Inl TypeError, h))
   \<and> ((\<exists>t. data = JStr t) \<or> (\<exists>m. data = JObj m) \<longrightarrow>
      check_appointments e s h (Body data) =
        (Inr \<lparr> current_time = now e,
               last_check = (case last_scan h of None \<Rightarrow> JStr first_check | Some v \<Rightarrow> v),
               api_last_checked = None, appointments = [] \<rparr>,
         \<lparr> last_scan = Some (JStr (now e)), stored = stored h \<rparr>))"
  using check_scalar_body[of data _ _ e s h] check_str_body[of e s h] check_obj_body[of e s h]
  by auto

theorem non_list_body_witness:
  "check_appointments env0 settings0 history0 (Body (JInt 404)) = (Inl TypeError, history0)
   \<and> check_appointments env0 settings0 history0 (Body (JStr ''Service unavailable'')) =
       (Inr \<lparr> current_time = ''01.06.2024 - 12:00:00'', last_check = JNull,
              api_last_checked = None, appointments = [] \<rparr>,
        \<lparr> last_scan = Some (JStr ''01.06.2024 - 12:00:00''), stored = Map.empty \<rparr>)"
  using non_list_body[of "JInt 404" env0 settings0 history0]
    non_list_body[of "JStr ''Service unavailable''" env0 settings0 history0]
  by (simp add: env0_def history0_def)

section \<open>The change of the count between two cycles\<close>

lemma listing_keys_member:
  "v \<in> set vs \<Longrightarrow> appointment_entry s v = Some (k, info) \<Longrightarrow> k \<in> set (listing_keys s vs)"
  by (induction vs) (auto split: option.splits)

lemma py_eq_refl: "py_eq v v"
  by (induction v)
    (simp_all add: list_all2_map1 list.rel_refl_strong fmap.rel_map fmap.rel_refl_strong)






section \<open>Running the cycle again on the same listing\<close>

lemma entry_change_None:
  "appointment_entry s v = Some (k, info) \<Longrightarrow> people_looking_change info = None"
  by (drule appointment_entry_Some) (auto simp: build_info_def)

lemma annotate_people_looking:
  "annotate st k info = Inr info' \<Longrightarrow> people_looking info' = people_looking info"
  by (drule annotate_Inr) auto

lemma holds_count_of_upd:
  assumes "w \<in> set vs0" and "appointment_entry s w = Some (k, info)"
      and "people_looking i2 = people_looking info"
  shows "holds_count_of s vs0 (st(k \<mapsto> i2)) k"
  unfolding holds_count_of_def using assms by auto

lemma holds_count_of_other:
  "k' \<noteq> k \<Longrightarrow> holds_count_of s vs0 (st(k' \<mapsto> i2)) k = holds_count_of s vs0 st k"
  unfolding holds_count_of_def by simp

lemma first_run_stores:
  assumes "process_listing s vs acc st = (Inr out, st1)" and "set vs \<subseteq> set vs0"
      and "k \<in> set (listing_keys s vs) \<or> holds_count_of s vs0 st k"
  shows "holds_count_of s vs0 st1 k"
  using assms
proof (induction vs arbitrary: acc st)
  case Nil
  then show ?case by simp
next
  case (Cons w ws)
  show ?case
  proof (cases "appointment_entry s w")
    case None
    with Cons.prems have "process_listing s ws acc st = (Inr out, st1)" "set ws \<subseteq> set vs0"
      "k \<in> set (listing_keys s ws) \<or> holds_count_of s vs0 st k"
      by auto
    then show ?thesis by (rule Cons.IH)
  next
    case (Some p)
    obtain k' info where p: "p = (k', info)" by (cases p)
    show ?thesis
    proof (cases "annotate st k' info")
      case (Inl e)
      with Cons.prems Some p show ?thesis by simp
    next
      case (Inr i2)
      with Cons.prems Some p have r: "process_listing s ws (acc @ [i2]) (st(k' \<mapsto> i2)) = (Inr out, st1)"
        by simp
      from Cons.prems(2) have sub: "set ws \<subseteq> set vs0" and w: "w \<in> set vs0" by auto
      have "k \<in> set (listing_keys s ws) \<or> holds_count_of s vs0 (st(k' \<mapsto> i2)) k"
      proof (cases "k = k'")
        case True
        with holds_count_of_upd[OF w _ annotate_people_looking[OF Inr]] Some p
        show ?thesis by simp
      next
        case False
        with Cons.prems(3) Some p show ?thesis
          by (auto simp: holds_count_of_other)
      qed
      with r sub show ?thesis by (rule Cons.IH)
    qed
  qed
qed

lemma second_run_plain:
  assumes "process_listing s vs acc st = (Inr out, st')" and "set vs \<subseteq> set vs0"
      and "same_key_same_count s vs0"
      and "\<forall>k\<in>set (listing_keys s vs). holds_count_of s vs0 st k"
      and "\<forall>x\<in>set acc. people_looking_change x = None"
  shows "\<forall>x\<in>set out. people_looking_change x = None"
  using assms
proof (induction vs arbitrary: acc st)
  case Nil
  then show ?case by simp
next
  case (Cons w ws)
  from Cons.prems(2) have sub: "set ws \<subseteq> set vs0" and w: "w \<in> set vs0" by auto
  show ?case
  proof (cases "appointment_entry s w")
    case None
    with Cons.prems have "process_listing s ws acc st = (Inr out, st')"
      "\<forall>k\<in>set (listing_keys s ws). holds_count_of s vs0 st k"
      by auto
    from Cons.IH[OF this(1) sub Cons.prems(3) this(2) Cons.prems(5)] show ?thesis .
  next
    case (Some p)
    obtain k info where p: "p = (k, info)" by (cases p)
    from Cons.prems(4) Some p have "holds_count_of s vs0 st k" by simp
    then obtain q v i where q: "st k = Some q" "v \<in> set vs0" "appointment_entry s v = Some (k, i)"
      "people_looking q = people_looking i"
      unfolding holds_count_of_def by blast
    from Cons.prems(3) q(2,3) w Some p have "py_eq (people_looking i) (people_looking info)"
      unfolding same_key_same_count_def by fastforce
    with q have an: "annotate st k info = Inr info"
      by (simp add: annotate_def)
    with Cons.prems(1) Some p have r: "process_listing s ws (acc @ [info]) (st(k \<mapsto> info)) = (Inr out, st')"
      by simp
    have inv: "\<forall>k'\<in>set (listing_keys s ws). holds_count_of s vs0 (st(k \<mapsto> info)) k'"
    proof
      fix k' assume k': "k' \<in> set (listing_keys s ws)"
      show "holds_count_of s vs0 (st(k \<mapsto> info)) k'"
      proof (cases "k' = k")
        case True
        with holds_count_of_upd[OF w, of s k info info st] Some p show ?thesis by simp
      next
        case False
        with Cons.prems(4) Some p k' show ?thesis
          by (simp add: holds_count_of_other)
      qed
    qed
    have acc: "\<forall>x\<in>set (acc @ [info]). people_looking_change x = None"
      using Cons.prems(5) entry_change_None[of s w k info] Some p by simp
    from Cons.IH[OF r sub Cons.prems(3) inv acc] show ?thesis .
  qed
qed

text \<open>
  Claim C3 says that a second cycle on the same listing reports no change. The key of a
  record leaves out the centre and the category, so a listing can hold two records with
  the same key and different counts. Each of them is then compared with the entry that
  the other one stored: on the second run the first record is compared with the count
  that the last record left in the history, and the second with the first.
\<close>

theorem rerun_counterexample:
  "check_appointments env0 settings0 history0
     (Body (JList [record0 ''2024-05-01'' 5, record0 ''2024-05-01'' 7]))
   = (Inr \<lparr> current_time = ''01.06.2024 - 12:00:00'', last_check = JNull,
            api_last_checked = None,
            appointments = [info0 ''01.05.2024'' 5,
                            (info0 ''01.05.2024'' 7)\<lparr>people_looking_change := Some 2\<rparr>] \<rparr>,
      \<lparr> last_scan = Some (JStr ''01.06.2024 - 12:00:00''),
        stored = [''Turkey_Germany_2024-05-01'' \<mapsto>
                    (info0 ''01.05.2024'' 7)\<lparr>people_looking_change := Some 2\<rparr>] \<rparr>)
   \<and> fst (check_appointments env0 settings0
        \<lparr> last_scan = Some (JStr ''01.06.2024 - 12:00:00''),
          stored = [''Turkey_Germany_2024-05-01'' \<mapsto>
                      (info0 ''01.05.2024'' 7)\<lparr>people_looking_change := Some 2\<rparr>] \<rparr>
        (Body (JList [record0 ''2024-05-01'' 5, record0 ''2024-05-01'' 7])))
     = Inr \<lparr> current_time = ''01.06.2024 - 12:00:00'',
             last_check = JStr ''01.06.2024 - 12:00:00'', api_last_checked = None,
             appointments = [(info0 ''01.05.2024'' 5)\<lparr>people_looking_change := Some (- 2)\<rparr>,
                             (info0 ''01.05.2024'' 7)\<lparr>people_looking_change := Some 2\<rparr>] \<rparr>"
  by (simp add: cycle_eval date_eval example_eval)

text \<open>
  Claim C3 as amended. Two cycles run on the same listing, the second on the history
  that the first left, and both emit a result. If the records of the listing that are
  stored under the same key carry equal counts (in particular if no two records share
  a key), no \<^verbatim>\<open>appointment_info\<close> of the second result has a
  \<^verbatim>\<open>people_looking_change\<close>.
\<close>

theorem rerun_without_change:
  assumes first: "check_appointments e1 s h0 (Body (JList vs)) = (Inr res1, h1)"
      and second: "check_appointments e2 s h1 (Body (JList vs)) = (Inr res2, h2)"
      and same: "same_key_same_count s vs"
  shows "\<forall>x\<in>set (appointments res2). people_looking_change x = None"
proof -
  from check_appointments_Inr[OF first]
  have p1: "process_listing s vs [] (stored h0) = (Inr (appointments res1), stored h1)"
    by (auto simp: iterate_def)
  from check_appointments_Inr[OF second]
  have p2: "process_listing s vs [] (stored h1) = (Inr (appointments res2), stored h2)"
    by (auto simp: iterate_def)
  have inv: "\<forall>k\<in>set (listing_keys s vs). holds_count_of s vs (stored h1) k"
    using first_run_stores[OF p1 subset_refl] by blast
  from second_run_plain[OF p2 subset_refl same inv] show ?thesis by simp
qed

theorem rerun_without_change_witness:
  "check_appointments env0 settings0 history0
     (Body (JList [record0 ''2024-05-01'' 12, record0 ''2024-05-02'' 5]))
   = (Inr \<lparr> current_time = ''01.06.2024 - 12:00:00'', last_check = JNull,
            api_last_checked = None,
            appointments = [info0 ''01.05.2024'' 12, info0 ''02.05.2024'' 5] \<rparr>,
      \<lparr> last_scan = Some (JStr ''01.06.2024 - 12:00:00''),
        stored = [''Turkey_Germany_2024-05-01'' \<mapsto> info0 ''01.05.2024'' 12,
                  ''Turkey_Germany_2024-05-02'' \<mapsto> info0 ''02.05.2024'' 5] \<rparr>)
   \<and> check_appointments env0 settings0
       \<lparr> last_scan = Some (JStr ''01.06.2024 - 12:00:00''),
         stored = [''Turkey_Germany_2024-05-01'' \<mapsto> info0 ''01.05.2024'' 12,
                   ''Turkey_Germany_2024-05-02'' \<mapsto> info0 ''02.05.2024'' 5] \<rparr>
       (Body (JList [record0 ''2024-05-01'' 12, record0 ''2024-05-02'' 5]))
   = (Inr \<lparr> current_time = ''01.06.2024 - 12:00:00'',
            last_check = JStr ''01.06.2024 - 12:00:00'', api_last_checked = None,
            appointments = [info0 ''01.05.2024'' 12, info0 ''02.05.2024'' 5] \<rparr>,
      \<lparr> last_scan = Some (JStr ''01.06.2024 - 12:00:00''),
        stored = [''Turkey_Germany_2024-05-01'' \<mapsto> info0 ''01.05.2024'' 12,
                  ''Turkey_Germany_2024-05-02'' \<mapsto> info0 ''02.05.2024'' 5] \<rparr>)
   \<and> same_key_same_count settings0 [record0 ''2024-05-01'' 12, record0 ''2024-05-02'' 5]
   \<and> people_looking_change (info0 ''01.05.2024'' 12) = None
   \<and> people_looking_change (info0 ''02.05.2024'' 5) = None"
proof -
  let ?vs = "[record0 ''2024-05-01'' 12, record0 ''2024-05-02'' 5]"
  let ?h1 = "\<lparr> last_scan = Some (JStr ''01.06.2024 - 12:00:00''),
        stored = [''Turkey_Germany_2024-05-01'' \<mapsto> info0 ''01.05.2024'' 12,
                  ''Turkey_Germany_2024-05-02'' \<mapsto> info0 ''02.05.2024'' 5] \<rparr>"
  let ?res1 = "\<lparr> current_time = ''01.06.2024 - 12:00:00'', last_check = JNull,
            api_last_checked = None,
            appointments = [info0 ''01.05.2024'' 12, info0 ''02.05.2024'' 5] \<rparr>"
  let ?res2 = "\<lparr> current_time = ''01.06.2024 - 12:00:00'',
            last_check = JStr ''01.06.2024 - 12:00:00'', api_last_checked = None,
            appointments = [info0 ''01.05.2024'' 12, info0 ''02.05.2024'' 5] \<rparr>"
  have c1: "check_appointments env0 settings0 history0 (Body (JList ?vs)) = (Inr ?res1, ?h1)"
    by (simp add: cycle_eval date_eval example_eval)
  have c2: "check_appointments env0 settings0 ?h1 (Body (JList ?vs)) = (Inr ?res2, ?h1)"
    by (simp add: cycle_eval date_eval example_eval)
  have same: "same_key_same_count settings0 ?vs"
    by (simp add: same_key_same_count_def cycle_eval date_eval example_eval)
  from rerun_without_change[OF c1 c2 same] c1 c2 same
  show ?thesis by simp
qed

section \<open>The order of the appointments\<close>

lemmas report_eval = handle_update_def report_head_def report_title_def route_line_def
  check_time_line_def last_message_line_def api_update_line_def available_line_def
  no_appointments_footer_def appointment_block_def people_info_def py_str_def str_int_def
  newline_def date_key_def date_key_of_def rendering0_def handle_error_def error_prefix_def






















section \<open>When a report is sent\<close>

text \<open>
  Claim C8. For every result, \<^verbatim>\<open>handle_update\<close> hands exactly one text to
  \<^verbatim>\<open>send_telegram_message\<close> when the appointment list is not empty. When the list is
  empty it hands over exactly one text, which ends with the no-appointments footer, if
  \<^verbatim>\<open>send_all_updates\<close> is set, and nothing otherwise.
\<close>

theorem dispatch_policy:
  "length (fst (handle_update r s res)) =
     (if appointments res \<noteq> [] then 1 else if send_all_updates s then 1 else 0)
   \<and> (appointments res = [] \<and> send_all_updates s \<longrightarrow>
        fst (handle_update r s res) = [report_head r s res @ no_appointments_footer])"
  by (simp add: handle_update_def handle_error_def Let_def split: option.splits)

theorem dispatch_policy_witness:
  "length (fst (handle_update rendering0 settings0
      \<lparr> current_time = ''01.06.2024 - 12:00:00'', last_check = JNull,
        api_last_checked = None, appointments = [] \<rparr>)) = 0
   \<and> length (fst (handle_update rendering0 settings0
      \<lparr> current_time = ''01.06.2024 - 12:00:00'', last_check = JNull,
        api_last_checked = None, appointments = [info0 ''01.05.2024'' 12] \<rparr>)) = 1
   \<and> fst (handle_update rendering0 (settings0\<lparr>send_all_updates := True\<rparr>)
      \<lparr> current_time = ''01.06.2024 - 12:00:00'', last_check = JNull,
        api_last_checked = None, appointments = [] \<rparr>)
     = [report_head rendering0 (settings0\<lparr>send_all_updates := True\<rparr>)
          \<lparr> current_time = ''01.06.2024 - 12:00:00'', last_check = JNull,
            api_last_checked = None, appointments = [] \<rparr> @ no_appointments_footer]"
  using dispatch_policy[of rendering0 settings0
      "\<lparr> current_time = ''01.06.2024 - 12:00:00'', last_check = JNull,
        api_last_checked = None, appointments = [] \<rparr>"]
    dispatch_policy[of rendering0 settings0
      "\<lparr> current_time = ''01.06.2024 - 12:00:00'', last_check = JNull,
        api_last_checked = None, appointments = [info0 ''01.05.2024'' 12] \<rparr>"]
    dispatch_policy[of rendering0 "settings0\<lparr>send_all_updates := True\<rparr>"
      "\<lparr> current_time = ''01.06.2024 - 12:00:00'', last_check = JNull,
        api_last_checked = None, appointments = [] \<rparr>"]
  by (simp add: settings0_def)

section \<open>The timestamp of the feed\<close>













end
